theory Spec2Isabelle
  imports Main "HOL-Library.Word"
begin

section \<open>JavaScript values read by the gateway\<close>

text \<open>
  The gateway is TypeScript running on Node. The handlers read the verified identity
  (\<^verbatim>\<open>req.user\<close>, typed \<^verbatim>\<open>any\<close>) and relay JSON bodies, so the values they touch are
  modelled as a datatype of JavaScript values: what \<^verbatim>\<open>JSON.parse\<close> can give, \<^verbatim>\<open>undefined\<close>,
  and the readable stream axios returns for \<^verbatim>\<open>responseType: 'stream'\<close> (\<open>JStream\<close>, a handle:
  the model has no operation that reads from it).

  A string is a list of 8-bit characters, one per code unit, so the strings of the model
  are those whose code units are at most 0xFF. A number is held as the text
  \<^verbatim>\<open>Number.prototype.toString\<close> prints for it (\<^verbatim>\<open>42\<close>, \<^verbatim>\<open>1.5\<close>, \<^verbatim>\<open>1e+21\<close>): the handlers
  never compute with a number, they test it for truthiness and print it. An object is
  the list of its own properties, the first binding of a key being the one that counts.
\<close>

datatype jsval =
    JUndefined
  | JNull
  | JBool bool
  | JNum string
  | JStr string
  | JArr "jsval list"
  | JObj "(string \<times> jsval) list"
  | JStream nat

text \<open>
  Truthiness, as used by \<^verbatim>\<open>if (x)\<close>, \<^verbatim>\<open>!x\<close>, \<^verbatim>\<open>x ? a : b\<close> and \<^verbatim>\<open>x || y\<close>. The falsy
  numbers are zero (plus or minus: both print as \<^verbatim>\<open>0\<close>) and \<^verbatim>\<open>NaN\<close>.
\<close>

fun truthy :: "jsval \<Rightarrow> bool" where
  "truthy JUndefined = False"
| "truthy JNull = False"
| "truthy (JBool b) = b"
| "truthy (JNum t) = (t \<noteq> ''0'' \<and> t \<noteq> ''NaN'')"
| "truthy (JStr s) = (s \<noteq> [])"
| "truthy (JArr xs) = True"
| "truthy (JObj kvs) = True"
| "truthy (JStream h) = True"

section \<open>Exceptions\<close>

text \<open>
  What an axios call can fail with: no response at all (the error code, such as
  \<^verbatim>\<open>ECONNREFUSED\<close> or \<^verbatim>\<open>ETIMEDOUT\<close>), or a response whose status is rejected by the default
  \<^verbatim>\<open>validateStatus\<close> (the status and the body the backend sent).
\<close>

datatype http_failure =
    NoResponse string
  | BadStatus nat jsval

text \<open>
  Everything the guard and the handlers throw: a plain \<^verbatim>\<open>Error\<close>, a \<^verbatim>\<open>TypeError\<close> (a
  property read on \<^verbatim>\<open>undefined\<close> or \<^verbatim>\<open>null\<close>, an object that cannot be printed, a header
  value that Node refuses), Nest's \<^verbatim>\<open>UnauthorizedException\<close>, and the \<^verbatim>\<open>AxiosError\<close> of a
  failed outbound call.
\<close>

datatype exception =
    Error string
  | TypeError string
  | UnauthorizedException string
  | AxiosError http_failure

text \<open>
  \<^verbatim>\<open>HttpException.getStatus()\<close>: of the exceptions above only \<^verbatim>\<open>UnauthorizedException\<close> is
  an \<^verbatim>\<open>HttpException\<close>, with status 401.
\<close>

fun getStatus :: "exception \<Rightarrow> nat option" where
  "getStatus (UnauthorizedException m) = Some 401"
| "getStatus (Error m) = None"
| "getStatus (TypeError m) = None"
| "getStatus (AxiosError f) = None"

text \<open>
  The status and message Nest's built-in exception layer answers the client with. The
  application module registers no exception filter, so an \<^verbatim>\<open>HttpException\<close> is answered
  with its own status and message, and any other thrown value with status 500 and the
  fixed message \<^verbatim>\<open>Internal server error\<close>.
\<close>

definition reply_status :: "exception \<Rightarrow> nat" where
  "reply_status e = (case getStatus e of Some s \<Rightarrow> s | None \<Rightarrow> 500)"

fun reply_message :: "exception \<Rightarrow> string" where
  "reply_message (UnauthorizedException m) = m"
| "reply_message (Error m) = ''Internal server error''"
| "reply_message (TypeError m) = ''Internal server error''"
| "reply_message (AxiosError f) = ''Internal server error''"

definition client_error :: "nat \<Rightarrow> bool" where
  "client_error s = (400 \<le> s \<and> s < 500)"

section \<open>Outbound calls\<close>

datatype http_method = GET | POST

datatype response_type = ResponseDefault | ResponseStream

type_synonym byte = "8 word"

record form_part =
  field :: string
  content :: "byte list"
  filename :: string

datatype body = NoBody | JsonBody jsval | FormBody "form_part list"

record outcall =
  meth :: http_method
  url :: string
  headers :: "(string \<times> string) list"
  payload :: body
  responseType :: response_type

text \<open>What a backend does with a call: it answers with a status and a body, or not at all.\<close>

datatype backend_reply =
    Reply nat jsval
  | NoReply string

record response =
  status :: nat
  data :: jsval

text \<open>
  The only state shared by requests is the process-wide metrics registry; the calls sent
  to the backends are logged beside it, in order. Of the eight metrics of the service the
  record holds the two counters that \<^verbatim>\<open>recordAuthOperation\<close> increments.
\<close>

record registry =
  authOperations :: "string \<times> string \<Rightarrow> nat"
  businessMetrics :: "string \<times> string \<Rightarrow> nat"

record world =
  sent :: "outcall list"
  metrics :: registry

text \<open>
  \<^verbatim>\<open>HttpModule\<close> is imported with its defaults, so axios resolves a response whose status
  is in [200, 300) and rejects every other outcome with an \<^verbatim>\<open>AxiosError\<close>.
\<close>

definition settle :: "backend_reply \<Rightarrow> exception + response" where
  "settle r =
     (case r of
        Reply st b \<Rightarrow>
          if 200 \<le> st \<and> st < 300 then Inr \<lparr>status = st, data = b\<rparr>
          else Inl (AxiosError (BadStatus st b))
      | NoReply code \<Rightarrow> Inl (AxiosError (NoResponse code)))"

text \<open>
  \<^verbatim>\<open>firstValueFrom(this.httpService.get/post(...))\<close>: one call is sent, and its outcome is
  settled. No handler retries.
\<close>

definition httpService_request ::
  "(outcall \<Rightarrow> backend_reply) \<Rightarrow> outcall \<Rightarrow> world \<Rightarrow> (exception + response) \<times> world" where
  "httpService_request http c w = (settle (http c), w\<lparr>sent := sent w @ [c]\<rparr>)"

text \<open>\<^verbatim>\<open>process.env.X || 'default'\<close>: an unset or empty variable gives the default.\<close>

record env =
  AUTH_SERVICE_URL :: "string option"
  VIDEO_SERVICE_URL :: "string option"

definition or_default :: "string option \<Rightarrow> string \<Rightarrow> string" where
  "or_default v d = (case v of None \<Rightarrow> d | Some s \<Rightarrow> if s = [] then d else s)"

section \<open>The authentication guard\<close>

text \<open>
  The part of the Express request the guard reads and writes: the \<^verbatim>\<open>authorization\<close>
  header (absent or a string) and the \<^verbatim>\<open>user\<close> property the guard attaches.
\<close>

record request =
  authorization :: "string option"
  user :: jsval

text \<open>
  \<^verbatim>\<open>s.split(' ')\<close>: the pieces between single spaces, empty pieces kept; the empty
  string splits into one empty piece.
\<close>

fun split_space :: "string \<Rightarrow> string list" where
  "split_space [] = [] # []"
| "split_space (c # cs) =
     (if c = CHR '' '' then [] # split_space cs
      else (case split_space cs of
              [] \<Rightarrow> [c] # []
            | p # ps \<Rightarrow> (c # p) # ps))"

text \<open>Array destructuring: a position past the end reads \<^verbatim>\<open>undefined\<close>.\<close>

definition element :: "'a list \<Rightarrow> nat \<Rightarrow> 'a option" where
  "element xs i = (if i < length xs then Some (xs ! i) else None)"

text \<open>
  \<^verbatim>\<open>
  const [type, token] = request.headers.authorization?.split(' ') ?? [];
  return type === 'Bearer' ? token : undefined;
  \<close>
\<close>

definition extractTokenFromHeader :: "request \<Rightarrow> string option" where
  "extractTokenFromHeader req =
     (let parts = (case authorization req of None \<Rightarrow> [] | Some h \<Rightarrow> split_space h);
          type = element parts 0;
          token = element parts 1
      in if type = Some ''Bearer'' then token else None)"

definition verify_call :: "env \<Rightarrow> string \<Rightarrow> outcall" where
  "verify_call e token =
     \<lparr>meth = GET,
      url = or_default (AUTH_SERVICE_URL e) ''http://localhost:3002'' @ ''/auth/verify'',
      headers = [(''Authorization'', ''Bearer '' @ token)],
      payload = NoBody,
      responseType = ResponseDefault\<rparr>"

text \<open>
  \<^verbatim>\<open>canActivate\<close>: a missing or empty token throws before anything is sent; otherwise the
  token is verified by the auth service, the response body is stored as \<^verbatim>\<open>request.user\<close>
  and the guard answers \<^verbatim>\<open>true\<close>; \<^verbatim>\<open>catchError\<close> replaces every failure of the call by
  \<^verbatim>\<open>UnauthorizedException('Invalid token')\<close>.
\<close>

definition canActivate ::
  "env \<Rightarrow> (outcall \<Rightarrow> backend_reply) \<Rightarrow> request \<Rightarrow> world
     \<Rightarrow> (exception + bool \<times> request) \<times> world" where
  "canActivate e http req w =
     (case extractTokenFromHeader req of
        None \<Rightarrow> (Inl (UnauthorizedException ''Token not found''), w)
      | Some token \<Rightarrow>
          if token = [] then (Inl (UnauthorizedException ''Token not found''), w)
          else (case httpService_request http (verify_call e token) w of
                  (Inr resp, w') \<Rightarrow> (Inr (True, req\<lparr>user := data resp\<rparr>), w')
                | (Inl err, w') \<Rightarrow> (Inl (UnauthorizedException ''Invalid token''), w')))"

section \<open>The auth controller\<close>

definition auth_call :: "env \<Rightarrow> string \<Rightarrow> jsval \<Rightarrow> outcall" where
  "auth_call e path dto =
     \<lparr>meth = POST,
      url = or_default (AUTH_SERVICE_URL e) ''http://localhost:3002'' @ path,
      headers = [],
      payload = JsonBody dto,
      responseType = ResponseDefault\<rparr>"

text \<open>
  \<^verbatim>\<open>register\<close>, \<^verbatim>\<open>login\<close> and \<^verbatim>\<open>refresh\<close> post the request body to the auth service and
  return \<^verbatim>\<open>response.data\<close>. None of them has a \<^verbatim>\<open>try\<close>/\<^verbatim>\<open>catch\<close>: a rejected call rejects
  the handler with the same error. The controller holds the HTTP service only, so the
  metrics registry is out of its reach.
\<close>

definition passthrough ::
  "env \<Rightarrow> (outcall \<Rightarrow> backend_reply) \<Rightarrow> string \<Rightarrow> jsval \<Rightarrow> world
     \<Rightarrow> (exception + jsval) \<times> world" where
  "passthrough e http path dto w =
     (case httpService_request http (auth_call e path dto) w of
        (Inr resp, w') \<Rightarrow> (Inr (data resp), w')
      | (Inl err, w') \<Rightarrow> (Inl err, w'))"

definition register ::
  "env \<Rightarrow> (outcall \<Rightarrow> backend_reply) \<Rightarrow> jsval \<Rightarrow> world \<Rightarrow> (exception + jsval) \<times> world" where
  "register e http registerDto w = passthrough e http ''/auth/register'' registerDto w"

definition login ::
  "env \<Rightarrow> (outcall \<Rightarrow> backend_reply) \<Rightarrow> jsval \<Rightarrow> world \<Rightarrow> (exception + jsval) \<times> world" where
  "login e http loginDto w = passthrough e http ''/auth/login'' loginDto w"

definition refresh ::
  "env \<Rightarrow> (outcall \<Rightarrow> backend_reply) \<Rightarrow> jsval \<Rightarrow> world \<Rightarrow> (exception + jsval) \<times> world" where
  "refresh e http body w = passthrough e http ''/auth/refresh'' body w"

text \<open>
  What the decorators of a route say about the status of a normal return: Nest answers
  with the code of \<^verbatim>\<open>@HttpCode\<close> when the route has one, and otherwise with 201 for a
  \<^verbatim>\<open>@Post\<close> route and 200 for any other. \<^verbatim>\<open>login\<close> is \<^verbatim>\<open>@Post('login')\<close> in the controller
  \<^verbatim>\<open>'auth'\<close>, with no \<^verbatim>\<open>@HttpCode\<close>; its \<^verbatim>\<open>@ApiResponse\<close> documents status 200.
\<close>

record route =
  route_verb :: http_method
  route_path :: string
  route_httpCode :: "nat option"

definition login_route :: route where
  "login_route = \<lparr>route_verb = POST, route_path = ''auth/login'', route_httpCode = None\<rparr>"

definition return_status :: "route \<Rightarrow> nat" where
  "return_status r =
     (case route_httpCode r of
        Some code \<Rightarrow> code
      | None \<Rightarrow> if route_verb r = POST then 201 else 200)"

section \<open>The metrics registry\<close>

text \<open>
  \<^verbatim>\<open>
  recordAuthOperation(operation, status) {
    this.authOperations.inc({ operation, status });
    this.businessMetrics.inc({ operation, service: 'auth' });
  }
  \<close>
\<close>

definition inc :: "('k \<Rightarrow> nat) \<Rightarrow> 'k \<Rightarrow> ('k \<Rightarrow> nat)" where
  "inc counter labels = counter(labels := counter labels + 1)"

definition recordAuthOperation :: "string \<Rightarrow> string \<Rightarrow> world \<Rightarrow> world" where
  "recordAuthOperation operation st w =
     w\<lparr>metrics := (metrics w)
          \<lparr>authOperations := inc (authOperations (metrics w)) (operation, st),
           businessMetrics := inc (businessMetrics (metrics w)) (operation, ''auth'')\<rparr>\<rparr>"

section \<open>The video controller\<close>

text \<open>
  What a property read gives: a value, or a native method inherited from a prototype.
\<close>

datatype property = Value jsval | Method string

text \<open>
  A property read \<^verbatim>\<open>v.k\<close>, for the two keys the handlers read (\<^verbatim>\<open>user\<close> and \<^verbatim>\<open>sub\<close>).
  Reading from \<^verbatim>\<open>undefined\<close> or \<^verbatim>\<open>null\<close> throws; an object gives the value bound to the
  key or \<^verbatim>\<open>undefined\<close>; a string has the inherited method \<^verbatim>\<open>String.prototype.sub\<close> and no
  \<^verbatim>\<open>user\<close>; every other value, a native method included, has neither.
\<close>

definition cannot_read :: "string \<Rightarrow> string \<Rightarrow> exception" where
  "cannot_read what k =
     TypeError (''Cannot read properties of '' @ what @ '' (reading '' @ [CHR 0x27] @ k
                  @ [CHR 0x27] @ '')'')"

definition member_of :: "(string \<times> jsval) list \<Rightarrow> string \<Rightarrow> jsval" where
  "member_of kvs k = (case map_of kvs k of None \<Rightarrow> JUndefined | Some v \<Rightarrow> v)"

fun getProp :: "jsval \<Rightarrow> string \<Rightarrow> exception + property" where
  "getProp JUndefined k = Inl (cannot_read ''undefined'' k)"
| "getProp JNull k = Inl (cannot_read ''null'' k)"
| "getProp (JObj kvs) k = Inr (Value (member_of kvs k))"
| "getProp (JStr s) k = Inr (if k = ''sub'' then Method ''sub'' else Value JUndefined)"
| "getProp (JBool b) k = Inr (Value JUndefined)"
| "getProp (JNum t) k = Inr (Value JUndefined)"
| "getProp (JArr xs) k = Inr (Value JUndefined)"
| "getProp (JStream h) k = Inr (Value JUndefined)"

fun getProp_of :: "property \<Rightarrow> string \<Rightarrow> exception + property" where
  "getProp_of (Value v) k = getProp v k"
| "getProp_of (Method f) k = Inr (Value JUndefined)"

fun truthy_property :: "property \<Rightarrow> bool" where
  "truthy_property (Value v) = truthy v"
| "truthy_property (Method f) = True"

text \<open>
  \<^verbatim>\<open>String(v)\<close>, the conversion applied to the identity's \<^verbatim>\<open>sub\<close> before it is sent as
  the \<^verbatim>\<open>X-User-Id\<close> header. An array joins the strings of its elements with commas, from
  left to right, \<^verbatim>\<open>null\<close> and \<^verbatim>\<open>undefined\<close> elements counting as empty strings. An object
  prints as \<^verbatim>\<open>[object Object]\<close> through the inherited \<^verbatim>\<open>toString\<close>; when it has a
  property \<^verbatim>\<open>toString\<close> of its own, which no parsed value can call, the conversion finds
  no primitive and throws. A native method prints its source text.
\<close>

fun js_String :: "jsval \<Rightarrow> exception + string"
  and join_elements :: "jsval list \<Rightarrow> exception + string" where
  "js_String JUndefined = Inr ''undefined''"
| "js_String JNull = Inr ''null''"
| "js_String (JBool b) = Inr (if b then ''true'' else ''false'')"
| "js_String (JNum t) = Inr t"
| "js_String (JStr s) = Inr s"
| "js_String (JArr xs) = join_elements xs"
| "js_String (JObj kvs) =
     (if map_of kvs ''toString'' = None then Inr ''[object Object]''
      else Inl (TypeError ''Cannot convert object to primitive value''))"
| "js_String (JStream h) = Inr ''[object Object]''"
| "join_elements [] = Inr []"
| "join_elements (x # xs) =
     (case (if x = JUndefined \<or> x = JNull then Inr [] else js_String x) of
        Inl err \<Rightarrow> Inl err
      | Inr s \<Rightarrow>
          if xs = [] then Inr s
          else (case join_elements xs of
                  Inl err \<Rightarrow> Inl err
                | Inr r \<Rightarrow> Inr (s @ '','' @ r)))"

fun String_of :: "property \<Rightarrow> exception + string" where
  "String_of (Value v) = js_String v"
| "String_of (Method f) = Inr (''function '' @ f @ ''() { [native code] }'')"

text \<open>\<^verbatim>\<open>String(req.user.user ? req.user.user.sub : req.user.sub)\<close>\<close>

definition userId :: "jsval \<Rightarrow> exception + string" where
  "userId u =
     (case getProp u ''user'' of
        Inl err \<Rightarrow> Inl err
      | Inr nested \<Rightarrow>
          (case (if truthy_property nested then getProp_of nested ''sub''
                 else getProp u ''sub'') of
             Inl err \<Rightarrow> Inl err
           | Inr s \<Rightarrow> String_of s))"

text \<open>
  A file as multer's memory storage hands it over. The \<^verbatim>\<open>files\<close> argument is declared an
  array of files; at run time it is whatever the interceptor left in \<^verbatim>\<open>req.files\<close>: an
  array, or a single value that is no array (\<open>None\<close> stands for \<^verbatim>\<open>undefined\<close>, which is
  what a request that is not multipart leaves there).
\<close>

record multer_file =
  originalname :: string
  buffer :: "byte list"

datatype uploaded =
    FileArray "multer_file option list"
  | FileValue "multer_file option"

text \<open>
  \<^verbatim>\<open>
  fileArray.forEach((file) => {
    if (file) {
      formData.append('videos', new Blob([new Uint8Array(file.buffer)]), file.originalname);
    }
  });
  \<close>
\<close>

fun appendFiles :: "multer_file option list \<Rightarrow> form_part list \<Rightarrow> form_part list" where
  "appendFiles [] formData = formData"
| "appendFiles (None # files) formData = appendFiles files formData"
| "appendFiles (Some file # files) formData =
     appendFiles files
       (formData @ [\<lparr>field = ''videos'', content = buffer file, filename = originalname file\<rparr>])"

definition upload_call :: "env \<Rightarrow> form_part list \<Rightarrow> string \<Rightarrow> outcall" where
  "upload_call e formData uid =
     \<lparr>meth = POST,
      url = or_default (VIDEO_SERVICE_URL e) ''http://localhost:3000'' @ ''/api/v1/videos/upload'',
      headers = [(''Content-Type'', ''multipart/form-data''), (''X-User-Id'', uid)],
      payload = FormBody formData,
      responseType = ResponseDefault\<rparr>"

text \<open>
  \<^verbatim>\<open>uploadVideo\<close>. The two count checks throw a plain \<^verbatim>\<open>Error\<close>. The test
  \<^verbatim>\<open>!fileArray\<close> of the source never holds (an array is truthy), so the first check is the
  length test alone. The header object is built before the call is sent, so a
  \<^verbatim>\<open>TypeError\<close> from reading or printing the identity sends nothing.
\<close>

definition uploadVideo ::
  "env \<Rightarrow> (outcall \<Rightarrow> backend_reply) \<Rightarrow> uploaded \<Rightarrow> request \<Rightarrow> world
     \<Rightarrow> (exception + jsval) \<times> world" where
  "uploadVideo e http files req w =
     (let fileArray = (case files of FileArray fs \<Rightarrow> fs | FileValue f \<Rightarrow> [f]) in
      if length fileArray = 0 then (Inl (Error ''No files provided''), w)
      else if length fileArray > 3 then (Inl (Error ''Maximum 3 files allowed''), w)
      else
        (let formData = appendFiles fileArray [] in
         case userId (user req) of
           Inl err \<Rightarrow> (Inl err, w)
         | Inr uid \<Rightarrow>
             (case httpService_request http (upload_call e formData uid) w of
                (Inr resp, w') \<Rightarrow> (Inr (data resp), w')
              | (Inl err, w') \<Rightarrow> (Inl err, w'))))"

text \<open>
  The part of the Express response \<^verbatim>\<open>downloadVideo\<close> writes: the headers, and the stream
  piped into the response.
\<close>

record client_response =
  res_headers :: "string \<rightharpoonup> string"
  res_piped :: "jsval option"

text \<open>
  Node refuses a header value with a character other than tab, 0x20 to 0x7E and 0x80 to
  0xFF: \<^verbatim>\<open>setHeader\<close> throws \<^verbatim>\<open>ERR_INVALID_CHAR\<close> and sets nothing.
\<close>

definition header_char_ok :: "char \<Rightarrow> bool" where
  "header_char_ok c =
     (let n = (of_char c :: nat) in n = 9 \<or> (32 \<le> n \<and> n \<le> 126) \<or> 128 \<le> n)"

definition setHeader :: "string \<Rightarrow> string \<Rightarrow> client_response \<Rightarrow> exception + client_response" where
  "setHeader k v res =
     (if list_all header_char_ok v then Inr (res\<lparr>res_headers := (res_headers res)(k \<mapsto> v)\<rparr>)
      else Inl (TypeError (''Invalid character in header content ['' @ [CHR 0x22] @ k
                             @ [CHR 0x22] @ '']'')))"

text \<open>
  \<^verbatim>\<open>res.set(obj)\<close> sets the fields of the object one after the other, in the order they
  are written, and stops at the first that throws. (It adds a charset to a
  \<^verbatim>\<open>Content-Type\<close> of a text type only; \<^verbatim>\<open>application/zip\<close> is set as it is.)
\<close>

fun res_set :: "(string \<times> string) list \<Rightarrow> client_response \<Rightarrow> (exception + unit) \<times> client_response" where
  "res_set [] res = (Inr (), res)"
| "res_set ((k, v) # kvs) res =
     (case setHeader k v res of
        Inl err \<Rightarrow> (Inl err, res)
      | Inr res' \<Rightarrow> res_set kvs res')"

definition download_call :: "env \<Rightarrow> string \<Rightarrow> string \<Rightarrow> outcall" where
  "download_call e name uid =
     \<lparr>meth = GET,
      url = or_default (VIDEO_SERVICE_URL e) ''http://localhost:3000''
              @ ''/api/v1/videos/download/'' @ name,
      headers = [(''X-User-Id'', uid)],
      payload = NoBody,
      responseType = ResponseStream\<rparr>"

text \<open>
  \<^verbatim>\<open>downloadVideo\<close>: the call asks for the body as a stream; once it has resolved, the
  two headers are set on the response and \<^verbatim>\<open>response.data\<close> (the stream) is piped into
  it. A failed call throws before the response is touched; a header that is refused
  throws after the call, with the headers before it set and nothing piped. The handler
  returns nothing; the response and the world are returned beside its outcome.
\<close>

definition downloadVideo ::
  "env \<Rightarrow> (outcall \<Rightarrow> backend_reply) \<Rightarrow> string \<Rightarrow> request \<Rightarrow> client_response \<Rightarrow> world
     \<Rightarrow> (exception + unit) \<times> client_response \<times> world" where
  "downloadVideo e http name req res w =
     (case userId (user req) of
        Inl err \<Rightarrow> (Inl err, res, w)
      | Inr uid \<Rightarrow>
          (case httpService_request http (download_call e name uid) w of
             (Inl err, w') \<Rightarrow> (Inl err, res, w')
           | (Inr resp, w') \<Rightarrow>
               (case res_set [(''Content-Type'', ''application/zip''),
                              (''Content-Disposition'', ''attachment; filename='' @ name)] res of
                  (Inl err, res') \<Rightarrow> (Inl err, res', w')
                | (Inr u, res') \<Rightarrow> (Inr (), res'\<lparr>res_piped := Some (data resp)\<rparr>, w'))))"

section \<open>Values for the closed instances\<close>

text \<open>
  A gateway with neither service URL configured, a process that has sent nothing and
  counted nothing, a request with a given header and identity, a backend that gives one
  answer to every call, and a response with nothing set.
\<close>

definition local_env :: env where
  "local_env = \<lparr>AUTH_SERVICE_URL = None, VIDEO_SERVICE_URL = None\<rparr>"

definition fresh_world :: world where
  "fresh_world =
     \<lparr>sent = [], metrics = \<lparr>authOperations = (\<lambda>l. 0), businessMetrics = (\<lambda>l. 0)\<rparr>\<rparr>"

definition request_with :: "string option \<Rightarrow> jsval \<Rightarrow> request" where
  "request_with h u = \<lparr>authorization = h, user = u\<rparr>"

definition always :: "backend_reply \<Rightarrow> outcall \<Rightarrow> backend_reply" where
  "always r c = r"

definition fresh_response :: client_response where
  "fresh_response = \<lparr>res_headers = Map.empty, res_piped = None\<rparr>"

section \<open>Reading the Authorization header\<close>

lemma split_space_nonempty: "split_space s \<noteq> []"
  by (induction s) (auto split: list.splits)

lemma split_space_word:
  "CHR '' '' \<notin> set s \<Longrightarrow> split_space (s @ CHR '' '' # r) = s # split_space r"
  by (induction s) (auto split: list.splits simp: split_space_nonempty)

lemma split_space_single: "CHR '' '' \<notin> set s \<Longrightarrow> split_space s = [s]"
  by (induction s) (auto split: list.splits)

lemma element_0: "element (x # xs) 0 = Some x"
  by (simp add: element_def)

lemma element_1: "element (x # y # ys) (Suc 0) = Some y"
  by (simp add: element_def)

lemma extract_missing: "authorization req = None \<Longrightarrow> extractTokenFromHeader req = None"
  by (simp add: extractTokenFromHeader_def element_def)

lemma extract_empty: "authorization req = Some [] \<Longrightarrow> extractTokenFromHeader req = None"
  by (simp add: extractTokenFromHeader_def element_def)

lemma extract_other_scheme:
  assumes "authorization req = Some (s @ r)" "CHR '' '' \<notin> set s" "s \<noteq> ''Bearer''"
    and "r = [] \<or> hd r = CHR '' ''"
  shows "extractTokenFromHeader req = None"
proof (cases r)
  case Nil
  with assms show ?thesis
    by (simp add: extractTokenFromHeader_def split_space_single element_0)
next
  case (Cons c r')
  with assms have "split_space (s @ r) = s # split_space r'"
    by (simp add: split_space_word)
  with assms show ?thesis
    by (simp add: extractTokenFromHeader_def element_0)
qed

lemma extract_bearer_bare:
  "authorization req = Some ''Bearer'' \<Longrightarrow> extractTokenFromHeader req = None"
  by (simp add: extractTokenFromHeader_def element_def)

text \<open>After \<^verbatim>\<open>Bearer\<close> and one space, the token is the text up to the next space.\<close>

lemma extract_bearer:
  assumes "authorization req = Some (''Bearer '' @ r)"
  shows "extractTokenFromHeader req = Some (hd (split_space r))"
proof -
  have "split_space (''Bearer'' @ CHR '' '' # r) = ''Bearer'' # split_space r"
    by (rule split_space_word) simp
  moreover obtain p ps where "split_space r = p # ps"
    using split_space_nonempty by (cases "split_space r") auto
  ultimately show ?thesis using assms
    by (simp add: extractTokenFromHeader_def element_0 element_1)
qed

lemma extract_bearer_token:
  assumes "authorization req = Some (''Bearer '' @ token)" "CHR '' '' \<notin> set token"
  shows "extractTokenFromHeader req = Some token"
  using extract_bearer[OF assms(1)] assms(2) by (simp add: split_space_single)

lemma extract_bearer_empty:
  assumes "authorization req = Some (''Bearer '' @ r)" "r = [] \<or> hd r = CHR '' ''"
  shows "extractTokenFromHeader req = Some []"
proof (cases r)
  case Nil
  with extract_bearer[OF assms(1)] show ?thesis by simp
next
  case (Cons c r')
  with assms(2) extract_bearer[OF assms(1)] show ?thesis by simp
qed

section \<open>The guard\<close>

lemma settle_ok:
  "200 \<le> st \<Longrightarrow> st < 300 \<Longrightarrow> settle (Reply st b) = Inr \<lparr>status = st, data = b\<rparr>"
  by (simp add: settle_def)

lemma settle_bad:
  "st < 200 \<or> 300 \<le> st \<Longrightarrow> settle (Reply st b) = Inl (AxiosError (BadStatus st b))"
  by (auto simp: settle_def)

lemma settle_none: "settle (NoReply code) = Inl (AxiosError (NoResponse code))"
  by (simp add: settle_def)

lemma canActivate_with_token:
  assumes "extractTokenFromHeader req = Some token" "token \<noteq> []"
  shows "canActivate e http req w =
           (case settle (http (verify_call e token)) of
              Inr resp \<Rightarrow> Inr (True, req\<lparr>user := data resp\<rparr>)
            | Inl err \<Rightarrow> Inl (UnauthorizedException ''Invalid token''),
            w\<lparr>sent := sent w @ [verify_call e token]\<rparr>)"
  using assms by (simp add: canActivate_def httpService_request_def split: sum.splits)

lemma verify_call_eq:
  "verify_call e token =
     \<lparr>meth = GET,
      url = (case AUTH_SERVICE_URL e of
               None \<Rightarrow> ''http://localhost:3002''
             | Some u \<Rightarrow> if u = [] then ''http://localhost:3002'' else u) @ ''/auth/verify'',
      headers = [(''Authorization'', ''Bearer '' @ token)],
      payload = NoBody,
      responseType = ResponseDefault\<rparr>"
  by (simp add: verify_call_def or_default_def)

text \<open>
  C1. A request whose Authorization header is missing, is empty, names a scheme other
  than \<^verbatim>\<open>Bearer\<close> (the text before the first space), is the bare word \<^verbatim>\<open>Bearer\<close>, or
  has nothing between \<^verbatim>\<open>Bearer\<close> and its space and the end or the next space, is
  rejected by the guard with \<^verbatim>\<open>UnauthorizedException('Token not found')\<close>, which is
  answered with status 401; the world is returned as it was, so nothing is sent to the
  auth service, whatever the auth service would have answered.
\<close>

theorem guard_token_missing:
  assumes "authorization req = None
         \<or> authorization req = Some []
         \<or> (\<exists>s r. authorization req = Some (s @ r) \<and> CHR '' '' \<notin> set s \<and> s \<noteq> ''Bearer''
                  \<and> (r = [] \<or> hd r = CHR '' ''))
         \<or> authorization req = Some ''Bearer''
         \<or> (\<exists>r. authorization req = Some (''Bearer '' @ r) \<and> (r = [] \<or> hd r = CHR '' ''))"
  shows "canActivate e http req w = (Inl (UnauthorizedException ''Token not found''), w)
       \<and> reply_status (UnauthorizedException ''Token not found'') = 401
       \<and> reply_message (UnauthorizedException ''Token not found'') = ''Token not found''"
proof -
  have "extractTokenFromHeader req = None \<or> extractTokenFromHeader req = Some []"
    using assms extract_missing extract_empty extract_other_scheme extract_bearer_bare
      extract_bearer_empty by blast
  then show ?thesis
    by (auto simp: canActivate_def reply_status_def)
qed

text \<open>The closed instance: \<^verbatim>\<open>Authorization: Basic dXNlcjpwYXNz\<close>.\<close>

theorem guard_token_missing_witness:
  "canActivate local_env (always (Reply 200 (JObj [(''sub'', JStr ''user-id'')])))
     (request_with (Some ''Basic dXNlcjpwYXNz'') JUndefined) fresh_world
   = (Inl (UnauthorizedException ''Token not found''), fresh_world)"
proof -
  have "authorization (request_with (Some ''Basic dXNlcjpwYXNz'') JUndefined)
          = Some (''Basic'' @ '' dXNlcjpwYXNz'')
        \<and> CHR '' '' \<notin> set ''Basic'' \<and> ''Basic'' \<noteq> ''Bearer''
        \<and> ('' dXNlcjpwYXNz'' = [] \<or> hd '' dXNlcjpwYXNz'' = CHR '' '')"
    by (simp add: request_with_def)
  then have "\<exists>s r. authorization (request_with (Some ''Basic dXNlcjpwYXNz'') JUndefined)
                     = Some (s @ r)
                \<and> CHR '' '' \<notin> set s \<and> s \<noteq> ''Bearer'' \<and> (r = [] \<or> hd r = CHR '' '')"
    by blast
  then show ?thesis
    using guard_token_missing
      [of "request_with (Some ''Basic dXNlcjpwYXNz'') JUndefined" local_env
          "always (Reply 200 (JObj [(''sub'', JStr ''user-id'')]))" fresh_world]
    by blast
qed

text \<open>
  C2. For a request carrying \<^verbatim>\<open>Authorization: Bearer <token>\<close> with a token that is not
  empty and has no space, the guard sends exactly one call, whatever the auth service
  answers: \<^verbatim>\<open>GET <AUTH_SERVICE_URL>/auth/verify\<close> with the header
  \<^verbatim>\<open>Authorization: Bearer <token>\<close>, where an unset or empty \<^verbatim>\<open>AUTH_SERVICE_URL\<close> stands for
  \<^verbatim>\<open>http://localhost:3002\<close>. When the answer has a status in [200, 300), the guard
  allows the request and the request's \<^verbatim>\<open>user\<close> is the response body.
\<close>

theorem guard_verifies_once:
  assumes "authorization req = Some (''Bearer '' @ token)"
    and "token \<noteq> []" and "CHR '' '' \<notin> set token"
    and "c = \<lparr>meth = GET,
              url = (case AUTH_SERVICE_URL e of
                       None \<Rightarrow> ''http://localhost:3002''
                     | Some u \<Rightarrow> if u = [] then ''http://localhost:3002'' else u)
                    @ ''/auth/verify'',
              headers = [(''Authorization'', ''Bearer '' @ token)],
              payload = NoBody,
              responseType = ResponseDefault\<rparr>"
  shows "snd (canActivate e http req w) = w\<lparr>sent := sent w @ [c]\<rparr>
       \<and> (\<forall>st b. http c = Reply st b \<and> 200 \<le> st \<and> st < 300
             \<longrightarrow> fst (canActivate e http req w) = Inr (True, req\<lparr>user := b\<rparr>))"
proof -
  have c: "verify_call e token = c"
    using assms(4) by (simp add: verify_call_eq)
  have tok: "extractTokenFromHeader req = Some token"
    using assms(1,3) by (rule extract_bearer_token)
  show ?thesis
    unfolding canActivate_with_token[OF tok assms(2)] c
    by (auto simp: settle_ok)
qed

text \<open>The closed instance: the guard's own test, \<^verbatim>\<open>Bearer valid-token\<close> answered with 200.\<close>

theorem guard_verifies_once_witness:
  "canActivate local_env (always (Reply 200 (JObj [(''sub'', JStr ''user-id'')])))
     (request_with (Some ''Bearer valid-token'') JUndefined) fresh_world
   = (Inr (True, request_with (Some ''Bearer valid-token'') (JObj [(''sub'', JStr ''user-id'')])),
      fresh_world\<lparr>sent :=
        [\<lparr>meth = GET, url = ''http://localhost:3002/auth/verify'',
          headers = [(''Authorization'', ''Bearer valid-token'')],
          payload = NoBody, responseType = ResponseDefault\<rparr>]\<rparr>)"
proof -
  let ?http = "always (Reply 200 (JObj [(''sub'', JStr ''user-id'')]))"
  let ?req = "request_with (Some ''Bearer valid-token'') JUndefined"
  let ?c = "\<lparr>meth = GET, url = ''http://localhost:3002/auth/verify'',
             headers = [(''Authorization'', ''Bearer valid-token'')],
             payload = NoBody, responseType = ResponseDefault\<rparr>"
  have h: "authorization ?req = Some (''Bearer '' @ ''valid-token'')"
    by (simp add: request_with_def)
  have c: "?c = \<lparr>meth = GET,
              url = (case AUTH_SERVICE_URL local_env of
                       None \<Rightarrow> ''http://localhost:3002''
                     | Some u \<Rightarrow> if u = [] then ''http://localhost:3002'' else u)
                    @ ''/auth/verify'',
              headers = [(''Authorization'', ''Bearer '' @ ''valid-token'')],
              payload = NoBody,
              responseType = ResponseDefault\<rparr>"
    by (simp add: local_env_def)
  note t = guard_verifies_once[OF h _ _ c, of ?http fresh_world]
  have "snd (canActivate local_env ?http ?req fresh_world)
          = fresh_world\<lparr>sent := sent fresh_world @ [?c]\<rparr>"
    and "fst (canActivate local_env ?http ?req fresh_world)
          = Inr (True, ?req\<lparr>user := JObj [(''sub'', JStr ''user-id'')]\<rparr>)"
    using t by (simp_all add: always_def)
  then show ?thesis
    by (simp add: prod_eq_iff request_with_def fresh_world_def)
qed

text \<open>
  C3. When the verification call of such a request fails, with no response at all
  (whatever the error code, a timeout included) or with a status outside [200, 300),
  the guard fails with \<^verbatim>\<open>UnauthorizedException('Invalid token')\<close>, answered with status
  401 and the message \<^verbatim>\<open>Invalid token\<close>. The error is the same value for every failure:
  neither the code, nor the status, nor the body of the failed call is in it.
\<close>

theorem guard_invalid_token:
  assumes "authorization req = Some (''Bearer '' @ token)"
    and "token \<noteq> []" and "CHR '' '' \<notin> set token"
    and "c = \<lparr>meth = GET,
              url = (case AUTH_SERVICE_URL e of
                       None \<Rightarrow> ''http://localhost:3002''
                     | Some u \<Rightarrow> if u = [] then ''http://localhost:3002'' else u)
                    @ ''/auth/verify'',
              headers = [(''Authorization'', ''Bearer '' @ token)],
              payload = NoBody,
              responseType = ResponseDefault\<rparr>"
    and "http c = NoReply code \<or> (http c = Reply st b \<and> (st < 200 \<or> 300 \<le> st))"
  shows "canActivate e http req w
           = (Inl (UnauthorizedException ''Invalid token''), w\<lparr>sent := sent w @ [c]\<rparr>)
       \<and> reply_status (UnauthorizedException ''Invalid token'') = 401
       \<and> reply_message (UnauthorizedException ''Invalid token'') = ''Invalid token''"
proof -
  have c: "verify_call e token = c"
    using assms(4) by (simp add: verify_call_eq)
  have tok: "extractTokenFromHeader req = Some token"
    using assms(1,3) by (rule extract_bearer_token)
  from assms(5) have "\<exists>f. settle (http c) = Inl f"
    using settle_bad settle_none by metis
  then show ?thesis
    unfolding canActivate_with_token[OF tok assms(2)] c
    by (auto simp: reply_status_def)
qed

text \<open>
  The closed instance: the auth service answers 403 with a body of its own, and nothing
  of it reaches the client.
\<close>

theorem guard_invalid_token_witness:
  "fst (canActivate local_env (always (Reply 403 (JObj [(''message'', JStr ''jwt expired'')])))
          (request_with (Some ''Bearer invalid-token'') JUndefined) fresh_world)
   = Inl (UnauthorizedException ''Invalid token'')"
proof -
  let ?http = "always (Reply 403 (JObj [(''message'', JStr ''jwt expired'')]))"
  let ?req = "request_with (Some ''Bearer invalid-token'') JUndefined"
  let ?c = "\<lparr>meth = GET, url = ''http://localhost:3002/auth/verify'',
             headers = [(''Authorization'', ''Bearer invalid-token'')],
             payload = NoBody, responseType = ResponseDefault\<rparr>"
  have h: "authorization ?req = Some (''Bearer '' @ ''invalid-token'')"
    by (simp add: request_with_def)
  have c: "?c = \<lparr>meth = GET,
              url = (case AUTH_SERVICE_URL local_env of
                       None \<Rightarrow> ''http://localhost:3002''
                     | Some u \<Rightarrow> if u = [] then ''http://localhost:3002'' else u)
                    @ ''/auth/verify'',
              headers = [(''Authorization'', ''Bearer '' @ ''invalid-token'')],
              payload = NoBody,
              responseType = ResponseDefault\<rparr>"
    by (simp add: local_env_def)
  have f: "?http ?c = NoReply [] \<or> (?http ?c = Reply 403 (JObj [(''message'', JStr ''jwt expired'')])
             \<and> ((403::nat) < 200 \<or> (300::nat) \<le> 403))"
    by (simp add: always_def)
  from guard_invalid_token
         [where http = ?http and w = fresh_world and code = "[]" and st = 403
            and b = "JObj [(''message'', JStr ''jwt expired'')]", OF h _ _ c f]
  show ?thesis
    by simp
qed

section \<open>Reading the identity\<close>

text \<open>\<^verbatim>\<open>String\<close> on values that are no strings.\<close>

lemma String_examples:
  "js_String (JArr [JNum ''1'', JNull, JArr [JStr ''a'', JBool True], JUndefined]) = Inr ''1,,a,true,''"
  "js_String (JArr []) = Inr []"
  "js_String (JObj [(''id'', JNum ''7'')]) = Inr ''[object Object]''"
  "js_String (JObj [(''toString'', JNum ''1'')])
     = Inl (TypeError ''Cannot convert object to primitive value'')"
  "js_String (JArr [JStr ''a'', JObj [(''toString'', JNull)]])
     = Inl (TypeError ''Cannot convert object to primitive value'')"
  by simp_all

text \<open>Identities that are not of the two shapes, and one whose \<^verbatim>\<open>sub\<close> cannot be printed.\<close>

lemma userId_examples:
  "userId (JStr ''abc'') = Inr ''function sub() { [native code] }''"
  "userId (JObj [(''user'', JBool True), (''sub'', JStr ''flat'')]) = Inr ''undefined''"
  "userId (JObj [(''user'', JStr ''x''), (''sub'', JStr ''flat'')])
     = Inr ''function sub() { [native code] }''"
  "userId JNull = Inl (cannot_read ''null'' ''user'')"
  "userId (JObj [(''sub'', JObj [(''toString'', JNum ''1'')])])
     = Inl (TypeError ''Cannot convert object to primitive value'')"
  by (simp_all add: userId_def member_of_def)

lemma js_String_primitive:
  assumes "sub = JStr h \<or> sub = JNum h
         \<or> (sub = JUndefined \<and> h = ''undefined'') \<or> (sub = JNull \<and> h = ''null'')
         \<or> (sub = JBool True \<and> h = ''true'') \<or> (sub = JBool False \<and> h = ''false'')"
  shows "js_String sub = Inr h"
  using assms by auto

lemma userId_flat:
  assumes "member_of kvs ''user''
             \<in> {JUndefined, JNull, JBool False, JNum ''0'', JNum ''NaN'', JStr []}"
  shows "userId (JObj kvs) = js_String (member_of kvs ''sub'')"
  using assms by (auto simp: userId_def)

lemma userId_nested:
  assumes "member_of kvs ''user'' = JObj nested"
  shows "userId (JObj kvs) = js_String (member_of nested ''sub'')"
  using assms by (simp add: userId_def)

lemma userId_shapes:
  assumes "(member_of kvs ''user''
              \<in> {JUndefined, JNull, JBool False, JNum ''0'', JNum ''NaN'', JStr []}
            \<and> sub = member_of kvs ''sub'')
         \<or> (\<exists>nested. member_of kvs ''user'' = JObj nested \<and> sub = member_of nested ''sub'')"
    and "sub = JStr h \<or> sub = JNum h
         \<or> (sub = JUndefined \<and> h = ''undefined'') \<or> (sub = JNull \<and> h = ''null'')
         \<or> (sub = JBool True \<and> h = ''true'') \<or> (sub = JBool False \<and> h = ''false'')"
  shows "userId (JObj kvs) = Inr h"
proof -
  have "userId (JObj kvs) = js_String sub"
    using assms(1) userId_flat userId_nested by metis
  then show ?thesis
    using js_String_primitive[OF assms(2)] by simp
qed

section \<open>Uploading\<close>

lemma appendFiles_Some:
  "appendFiles (map Some fs) formData =
     formData @ map (\<lambda>f. \<lparr>field = ''videos'', content = buffer f, filename = originalname f\<rparr>) fs"
  by (induction fs arbitrary: formData) auto

lemma upload_call_eq:
  "upload_call e formData uid =
     \<lparr>meth = POST,
      url = (case VIDEO_SERVICE_URL e of
               None \<Rightarrow> ''http://localhost:3000''
             | Some u \<Rightarrow> if u = [] then ''http://localhost:3000'' else u)
            @ ''/api/v1/videos/upload'',
      headers = [(''Content-Type'', ''multipart/form-data''), (''X-User-Id'', uid)],
      payload = FormBody formData,
      responseType = ResponseDefault\<rparr>"
  by (simp add: upload_call_def or_default_def)

lemma uploadVideo_sends:
  assumes "fileArray = (case files of FileArray fs \<Rightarrow> fs | FileValue f \<Rightarrow> [f])"
    and "fileArray \<noteq> []" "length fileArray \<le> 3"
    and "userId (user req) = Inr uid"
  shows "uploadVideo e http files req w =
           (case settle (http (upload_call e (appendFiles fileArray []) uid)) of
              Inr resp \<Rightarrow> Inr (data resp) | Inl err \<Rightarrow> Inl err,
            w\<lparr>sent := sent w @ [upload_call e (appendFiles fileArray []) uid]\<rparr>)"
  using assms
  by (simp add: uploadVideo_def httpService_request_def Let_def split: sum.splits)

text \<open>
  C5, as the code has it. For a multi-upload request whose \<^verbatim>\<open>files\<close> is an array of 1 to
  3 files (or one file that is no array) and whose verified identity is an object, the
  handler sends exactly one call:
  a multipart \<^verbatim>\<open>POST\<close> to \<^verbatim>\<open><VIDEO_SERVICE_URL>/api/v1/videos/upload\<close> (an unset or empty
  variable stands for \<^verbatim>\<open>http://localhost:3000\<close>) whose body has one part per file, in
  order, with the file's bytes and its original name. Its \<^verbatim>\<open>X-User-Id\<close> header is the
  string of \<^verbatim>\<open>identity.user.sub\<close> when \<^verbatim>\<open>identity.user\<close> is an object, and the string of
  \<^verbatim>\<open>identity.sub\<close> when \<^verbatim>\<open>identity.user\<close> is absent or falsy (\<^verbatim>\<open>null\<close>, \<^verbatim>\<open>false\<close>, zero,
  \<^verbatim>\<open>NaN\<close>, the empty string): the test is the truthiness of \<^verbatim>\<open>identity.user\<close>, not the
  presence of the key. The \<^verbatim>\<open>sub\<close> read is a string or a number (the header is its
  text), a boolean, \<^verbatim>\<open>null\<close>, or absent (the header is \<^verbatim>\<open>true\<close>, \<^verbatim>\<open>false\<close>, \<^verbatim>\<open>null\<close>,
  \<^verbatim>\<open>undefined\<close>). When the video service answers with a status in [200, 300), the
  handler returns the answer's body as it is.
\<close>

theorem upload_forwards_files:
  assumes "files = FileArray (map Some fs) \<or> (\<exists>f. files = FileValue (Some f) \<and> fs = [f])"
    and "1 \<le> length fs" and "length fs \<le> 3"
    and "user req = JObj kvs"
    and "(member_of kvs ''user''
              \<in> {JUndefined, JNull, JBool False, JNum ''0'', JNum ''NaN'', JStr []}
            \<and> sub = member_of kvs ''sub'')
         \<or> (\<exists>nested. member_of kvs ''user'' = JObj nested \<and> sub = member_of nested ''sub'')"
    and "sub = JStr h \<or> sub = JNum h
         \<or> (sub = JUndefined \<and> h = ''undefined'') \<or> (sub = JNull \<and> h = ''null'')
         \<or> (sub = JBool True \<and> h = ''true'') \<or> (sub = JBool False \<and> h = ''false'')"
    and "c = \<lparr>meth = POST,
              url = (case VIDEO_SERVICE_URL e of
                       None \<Rightarrow> ''http://localhost:3000''
                     | Some u \<Rightarrow> if u = [] then ''http://localhost:3000'' else u)
                    @ ''/api/v1/videos/upload'',
              headers = [(''Content-Type'', ''multipart/form-data''), (''X-User-Id'', h)],
              payload = FormBody
                (map (\<lambda>f. \<lparr>field = ''videos'', content = buffer f, filename = originalname f\<rparr>) fs),
              responseType = ResponseDefault\<rparr>"
  shows "snd (uploadVideo e http files req w) = w\<lparr>sent := sent w @ [c]\<rparr>
       \<and> (\<forall>st b. http c = Reply st b \<and> 200 \<le> st \<and> st < 300
             \<longrightarrow> fst (uploadVideo e http files req w) = Inr b)"
proof -
  have uid: "userId (user req) = Inr h"
    using assms(4) userId_shapes[OF assms(5,6)] by simp
  have fa: "map Some fs = (case files of FileArray fs \<Rightarrow> fs | FileValue f \<Rightarrow> [f])"
    using assms(1) by auto
  have ne: "map Some fs \<noteq> []" and le: "length (map Some fs) \<le> 3"
    using assms(2,3) by auto
  have c: "upload_call e (appendFiles (map Some fs) []) h = c"
    using assms(7) by (simp add: upload_call_eq appendFiles_Some)
  show ?thesis
    unfolding uploadVideo_sends[OF fa ne le uid] c
    by (auto simp: settle_ok)
qed

text \<open>The closed instance: two files, a nested identity, the answer 202.\<close>

theorem upload_forwards_files_witness:
  "uploadVideo local_env (always (Reply 202 (JObj [(''success'', JBool True)])))
     (FileArray [Some \<lparr>originalname = ''test1.mp4'', buffer = [1, 2]\<rparr>,
                 Some \<lparr>originalname = ''test2.mp4'', buffer = [3]\<rparr>])
     (request_with (Some ''Bearer t'') (JObj [(''user'', JObj [(''sub'', JStr ''user-id-123'')])]))
     fresh_world
   = (Inr (JObj [(''success'', JBool True)]),
      fresh_world\<lparr>sent :=
        [\<lparr>meth = POST, url = ''http://localhost:3000/api/v1/videos/upload'',
          headers = [(''Content-Type'', ''multipart/form-data''), (''X-User-Id'', ''user-id-123'')],
          payload = FormBody
            [\<lparr>field = ''videos'', content = [1, 2], filename = ''test1.mp4''\<rparr>,
             \<lparr>field = ''videos'', content = [3], filename = ''test2.mp4''\<rparr>],
          responseType = ResponseDefault\<rparr>]\<rparr>)"
proof -
  let ?http = "always (Reply 202 (JObj [(''success'', JBool True)]))"
  let ?fs = "[\<lparr>originalname = ''test1.mp4'', buffer = [1, 2 :: byte]\<rparr>,
              \<lparr>originalname = ''test2.mp4'', buffer = [3]\<rparr>]"
  let ?kvs = "[(''user'', JObj [(''sub'', JStr ''user-id-123'')])]"
  let ?req = "request_with (Some ''Bearer t'') (JObj ?kvs)"
  let ?c = "\<lparr>meth = POST, url = ''http://localhost:3000/api/v1/videos/upload'',
          headers = [(''Content-Type'', ''multipart/form-data''), (''X-User-Id'', ''user-id-123'')],
          payload = FormBody
            [\<lparr>field = ''videos'', content = [1, 2 :: byte], filename = ''test1.mp4''\<rparr>,
             \<lparr>field = ''videos'', content = [3], filename = ''test2.mp4''\<rparr>],
          responseType = ResponseDefault\<rparr>"
  let ?files = "FileArray [Some \<lparr>originalname = ''test1.mp4'', buffer = [1, 2]\<rparr>,
                           Some \<lparr>originalname = ''test2.mp4'', buffer = [3]\<rparr>]"
  have a1: "?files = FileArray (map Some ?fs) \<or> (\<exists>f. ?files = FileValue (Some f) \<and> ?fs = [f])"
    by simp
  have a2: "1 \<le> length ?fs" and a3: "length ?fs \<le> 3"
    by simp_all
  have a4: "user ?req = JObj ?kvs"
    by (simp add: request_with_def)
  have a5: "(member_of ?kvs ''user''
              \<in> {JUndefined, JNull, JBool False, JNum ''0'', JNum ''NaN'', JStr []}
            \<and> JStr ''user-id-123'' = member_of ?kvs ''sub'')
         \<or> (\<exists>nested. member_of ?kvs ''user'' = JObj nested
               \<and> JStr ''user-id-123'' = member_of nested ''sub'')"
    by (simp add: member_of_def)
  have a6: "JStr ''user-id-123'' = JStr ''user-id-123'' \<or> JStr ''user-id-123'' = JNum ''user-id-123''
         \<or> (JStr ''user-id-123'' = JUndefined \<and> ''user-id-123'' = ''undefined'')
         \<or> (JStr ''user-id-123'' = JNull \<and> ''user-id-123'' = ''null'')
         \<or> (JStr ''user-id-123'' = JBool True \<and> ''user-id-123'' = ''true'')
         \<or> (JStr ''user-id-123'' = JBool False \<and> ''user-id-123'' = ''false'')"
    by simp
  have a7: "?c = \<lparr>meth = POST,
              url = (case VIDEO_SERVICE_URL local_env of
                       None \<Rightarrow> ''http://localhost:3000''
                     | Some u \<Rightarrow> if u = [] then ''http://localhost:3000'' else u)
                    @ ''/api/v1/videos/upload'',
              headers = [(''Content-Type'', ''multipart/form-data''), (''X-User-Id'', ''user-id-123'')],
              payload = FormBody
                (map (\<lambda>f. \<lparr>field = ''videos'', content = buffer f, filename = originalname f\<rparr>) ?fs),
              responseType = ResponseDefault\<rparr>"
    by (simp add: local_env_def)
  note t = upload_forwards_files[where http = ?http and w = fresh_world, OF a1 a2 a3 a4 a5 a6 a7]
  have "snd (uploadVideo local_env ?http (FileArray (map Some ?fs)) ?req fresh_world)
          = fresh_world\<lparr>sent := sent fresh_world @ [?c]\<rparr>"
    and "fst (uploadVideo local_env ?http (FileArray (map Some ?fs)) ?req fresh_world)
          = Inr (JObj [(''success'', JBool True)])"
    using t by (simp_all add: always_def)
  then show ?thesis
    by (simp add: prod_eq_iff fresh_world_def)
qed

text \<open>
  C5 fails as stated: the identity \<^verbatim>\<open>{user: null, sub: 'flat'}\<close> has a \<^verbatim>\<open>user\<close> key, under
  which there is no \<^verbatim>\<open>sub\<close> to read, and the header sent is the flat \<^verbatim>\<open>sub\<close>.
\<close>

theorem upload_user_null_reads_flat_sub:
  "uploadVideo local_env (always (Reply 202 (JObj [(''success'', JBool True)])))
     (FileArray [Some \<lparr>originalname = ''test1.mp4'', buffer = [1, 2]\<rparr>])
     (request_with (Some ''Bearer t'') (JObj [(''user'', JNull), (''sub'', JStr ''flat'')]))
     fresh_world
   = (Inr (JObj [(''success'', JBool True)]),
      fresh_world\<lparr>sent :=
        [\<lparr>meth = POST, url = ''http://localhost:3000/api/v1/videos/upload'',
          headers = [(''Content-Type'', ''multipart/form-data''), (''X-User-Id'', ''flat'')],
          payload = FormBody [\<lparr>field = ''videos'', content = [1, 2], filename = ''test1.mp4''\<rparr>],
          responseType = ResponseDefault\<rparr>]\<rparr>)
   \<and> map_of [(''user'', JNull), (''sub'', JStr ''flat'')] ''user'' = Some JNull
   \<and> getProp JNull ''sub'' = Inl (cannot_read ''null'' ''sub'')"
  by (simp add: uploadVideo_def httpService_request_def settle_def always_def userId_def
      member_of_def upload_call_def or_default_def local_env_def request_with_def fresh_world_def)

lemma getProp_not_Error: "getProp v k \<noteq> Inl (Error m)"
  by (cases v) (simp_all add: cannot_read_def)

lemma js_String_not_Error:
  "js_String v \<noteq> Inl (Error m)" and "join_elements xs \<noteq> Inl (Error m)"
  by (induction v and xs rule: js_String_join_elements.induct)
     (auto split: sum.splits if_splits)

lemma userId_not_Error: "userId v \<noteq> Inl (Error m)"
proof -
  have 1: "\<And>p k. getProp_of p k \<noteq> Inl (Error m)"
    subgoal for p k by (cases p) (simp_all add: getProp_not_Error)
    done
  have 2: "\<And>p. String_of p \<noteq> Inl (Error m)"
    subgoal for p by (cases p) (simp_all add: js_String_not_Error)
    done
  show ?thesis
    using getProp_not_Error[of _ _ m] 1 2
    by (auto simp: userId_def split: sum.splits if_splits)
qed

lemma settle_not_Error: "settle r \<noteq> Inl (Error m)"
  by (auto simp: settle_def split: backend_reply.splits)

lemma uploadVideo_Error:
  assumes "fst (uploadVideo e http files req w) = Inl (Error m)"
  shows "(m = ''No files provided'' \<and> (case files of FileArray fs \<Rightarrow> fs = [] | FileValue f \<Rightarrow> False))
       \<or> (m = ''Maximum 3 files allowed'' \<and> (case files of FileArray fs \<Rightarrow> 3 < length fs | FileValue f \<Rightarrow> False))"
proof (cases files)
  case (FileArray fs)
  with assms show ?thesis
    using userId_not_Error[of "user req" m] settle_not_Error[of _ m]
    by (auto simp: uploadVideo_def httpService_request_def Let_def split: sum.splits if_splits)
next
  case (FileValue f)
  with assms show ?thesis
    using userId_not_Error[of "user req" m] settle_not_Error[of _ m]
    by (auto simp: uploadVideo_def httpService_request_def Let_def split: sum.splits if_splits)
qed

text \<open>
  C10. When the \<^verbatim>\<open>files\<close> array has at most 3 entries, as the route's
  \<^verbatim>\<open>FilesInterceptor('videos', 3)\<close> ensures (a value that is no array is wrapped into an
  array of one), the handler never fails with \<^verbatim>\<open>Error('Maximum 3 files allowed')\<close>,
  whatever the identity and whatever the video service answers.
\<close>

theorem max_files_unreachable:
  assumes "\<forall>fs. files = FileArray fs \<longrightarrow> length fs \<le> 3"
  shows "fst (uploadVideo e http files req w) \<noteq> Inl (Error ''Maximum 3 files allowed'')"
proof
  assume "fst (uploadVideo e http files req w) = Inl (Error ''Maximum 3 files allowed'')"
  from uploadVideo_Error[OF this] assms show False
    by (cases files) auto
qed

text \<open>The closed instance: three files.\<close>

theorem max_files_unreachable_witness:
  "fst (uploadVideo local_env (always (Reply 202 (JObj [(''success'', JBool True)])))
          (FileArray [Some \<lparr>originalname = ''a.mp4'', buffer = [1, 2]\<rparr>,
                      Some \<lparr>originalname = ''b.mp4'', buffer = [3]\<rparr>,
                      Some \<lparr>originalname = ''c.mp4'', buffer = []\<rparr>])
          (request_with (Some ''Bearer t'') (JObj [(''sub'', JStr ''user-id-123'')])) fresh_world)
   \<noteq> Inl (Error ''Maximum 3 files allowed'')"
  by (rule max_files_unreachable) simp

section \<open>The file-count checks of the upload\<close>

text \<open>
  C4. With an empty array of files the handler throws \<^verbatim>\<open>Error('No files provided')\<close>, and
  with an array of four or more it throws \<^verbatim>\<open>Error('Maximum 3 files allowed')\<close>, in both
  cases before anything is sent. Both are plain errors with no HTTP status: they are
  answered with status 500 and the message \<^verbatim>\<open>Internal server error\<close>, which is no client
  error, although the route documents status 400 for missing files and too many files.
\<close>

theorem upload_count_checks_throw_plain_errors:
  "uploadVideo e http (FileArray []) req w = (Inl (Error ''No files provided''), w)
   \<and> uploadVideo e http (FileArray (f1 # f2 # f3 # f4 # fs)) req w
       = (Inl (Error ''Maximum 3 files allowed''), w)
   \<and> getStatus (Error ''No files provided'') = None
   \<and> getStatus (Error ''Maximum 3 files allowed'') = None
   \<and> reply_status (Error ''No files provided'') = 500
   \<and> reply_status (Error ''Maximum 3 files allowed'') = 500
   \<and> reply_message (Error ''No files provided'') = ''Internal server error''
   \<and> \<not> client_error (reply_status (Error ''No files provided''))
   \<and> \<not> client_error (reply_status (Error ''Maximum 3 files allowed''))"
  by (simp add: uploadVideo_def reply_status_def client_error_def)

text \<open>
  C6. When \<^verbatim>\<open>files\<close> is \<^verbatim>\<open>undefined\<close> (the request was not multipart), the handler wraps
  it into an array of one, which passes both count checks; the loop skips the
  \<^verbatim>\<open>undefined\<close> entry, and the call goes out with a multipart body of no file at all.
\<close>

theorem upload_missing_files_sends_empty_body:
  "uploadVideo local_env (always (Reply 202 (JObj [(''success'', JBool True)])))
     (FileValue None)
     (request_with (Some ''Bearer t'') (JObj [(''sub'', JStr ''user-id-123'')]))
     fresh_world
   = (Inr (JObj [(''success'', JBool True)]),
      fresh_world\<lparr>sent :=
        [\<lparr>meth = POST, url = ''http://localhost:3000/api/v1/videos/upload'',
          headers = [(''Content-Type'', ''multipart/form-data''), (''X-User-Id'', ''user-id-123'')],
          payload = FormBody [],
          responseType = ResponseDefault\<rparr>]\<rparr>)"
  by (simp add: uploadVideo_def httpService_request_def settle_def always_def userId_def
      member_of_def upload_call_def or_default_def local_env_def request_with_def fresh_world_def)

section \<open>Downloading\<close>

lemma download_call_eq:
  "download_call e name uid =
     \<lparr>meth = GET,
      url = (case VIDEO_SERVICE_URL e of
               None \<Rightarrow> ''http://localhost:3000''
             | Some u \<Rightarrow> if u = [] then ''http://localhost:3000'' else u)
            @ ''/api/v1/videos/download/'' @ name,
      headers = [(''X-User-Id'', uid)],
      payload = NoBody,
      responseType = ResponseStream\<rparr>"
  by (simp add: download_call_def or_default_def)

lemma header_char_ok_iff:
  "header_char_ok ch \<longleftrightarrow>
     of_char ch = (9::nat) \<or> (32 \<le> (of_char ch :: nat) \<and> (of_char ch :: nat) \<le> 126)
       \<or> 128 \<le> (of_char ch :: nat)"
  by (simp add: header_char_ok_def Let_def)

lemma zip_header_ok: "list_all header_char_ok ''application/zip''"
  by (simp add: header_char_ok_def)

lemma disposition_header_ok:
  "list_all header_char_ok (''attachment; filename='' @ name) = list_all header_char_ok name"
  by (simp add: header_char_ok_def)

lemma res_set_two:
  assumes "list_all header_char_ok v1" and "list_all header_char_ok v2"
  shows "res_set [(k1, v1), (k2, v2)] res
         = (Inr (), res\<lparr>res_headers := (res_headers res)(k1 \<mapsto> v1, k2 \<mapsto> v2)\<rparr>)"
  using assms by (simp add: setHeader_def)

lemma downloadVideo_resolved:
  assumes "userId (user req) = Inr uid"
    and "http (download_call e name uid) = Reply st stream" and "200 \<le> st" and "st < 300"
  shows "downloadVideo e http name req res w =
           (case res_set [(''Content-Type'', ''application/zip''),
                          (''Content-Disposition'', ''attachment; filename='' @ name)] res of
              (Inl err, res') \<Rightarrow> (Inl err, res', w\<lparr>sent := sent w @ [download_call e name uid]\<rparr>)
            | (Inr u, res') \<Rightarrow>
                (Inr (), res'\<lparr>res_piped := Some stream\<rparr>,
                 w\<lparr>sent := sent w @ [download_call e name uid]\<rparr>))"
  using assms
  by (simp add: downloadVideo_def httpService_request_def settle_ok del: res_set.simps
        split: prod.splits sum.splits)

text \<open>
  C7, as the code has it. For a download of the file named \<open>name\<close>, every character of
  which Node accepts in a header value (tab, 0x20 to 0x7E, 0x80 to 0xFF), by a caller
  whose identity is an object read as for the upload, the handler sends one \<^verbatim>\<open>GET\<close> to
  \<^verbatim>\<open><VIDEO_SERVICE_URL>/api/v1/videos/download/<name>\<close> with \<^verbatim>\<open>responseType: 'stream'\<close>.
  When the video service answers with a status in [200, 300), the handler sets on the
  client response the two headers \<^verbatim>\<open>Content-Type: application/zip\<close> and
  \<^verbatim>\<open>Content-Disposition: attachment; filename=<name>\<close>, the name as it was requested, leaves
  every other header as it was, and pipes the stream of the answer into the response.
  The stream is handed over as a handle: the handler reads nothing from it.
\<close>

theorem download_streams:
  assumes "user req = JObj kvs"
    and "(member_of kvs ''user''
              \<in> {JUndefined, JNull, JBool False, JNum ''0'', JNum ''NaN'', JStr []}
            \<and> sub = member_of kvs ''sub'')
         \<or> (\<exists>nested. member_of kvs ''user'' = JObj nested \<and> sub = member_of nested ''sub'')"
    and "sub = JStr h \<or> sub = JNum h
         \<or> (sub = JUndefined \<and> h = ''undefined'') \<or> (sub = JNull \<and> h = ''null'')
         \<or> (sub = JBool True \<and> h = ''true'') \<or> (sub = JBool False \<and> h = ''false'')"
    and "\<forall>ch \<in> set name. of_char ch = (9::nat)
           \<or> (32 \<le> (of_char ch :: nat) \<and> (of_char ch :: nat) \<le> 126)
           \<or> 128 \<le> (of_char ch :: nat)"
    and "c = \<lparr>meth = GET,
              url = (case VIDEO_SERVICE_URL e of
                       None \<Rightarrow> ''http://localhost:3000''
                     | Some u \<Rightarrow> if u = [] then ''http://localhost:3000'' else u)
                    @ ''/api/v1/videos/download/'' @ name,
              headers = [(''X-User-Id'', h)],
              payload = NoBody,
              responseType = ResponseStream\<rparr>"
    and "http c = Reply st stream" and "200 \<le> st" and "st < 300"
  shows "downloadVideo e http name req res w =
           (Inr (),
            res\<lparr>res_headers := (res_headers res)
                   (''Content-Type'' \<mapsto> ''application/zip'',
                    ''Content-Disposition'' \<mapsto> ''attachment; filename='' @ name),
                res_piped := Some stream\<rparr>,
            w\<lparr>sent := sent w @ [c]\<rparr>)"
proof -
  have uid: "userId (user req) = Inr h"
    using assms(1) userId_shapes[OF assms(2,3)] by simp
  have ok: "list_all header_char_ok name"
    using assms(4) by (simp add: list_all_iff header_char_ok_iff)
  have c: "download_call e name h = c"
    using assms(5) by (simp add: download_call_eq)
  have dis: "list_all header_char_ok (''attachment; filename='' @ name)"
    unfolding disposition_header_ok by (rule ok)
  have r: "http (download_call e name h) = Reply st stream"
    using assms(6) c by simp
  show ?thesis
    unfolding downloadVideo_resolved[where http = http and e = e, OF uid r assms(7,8)]
      res_set_two[OF zip_header_ok dis] c
    by simp
qed

text \<open>The closed instance: a flat identity, a response with no header set before.\<close>

theorem download_streams_witness:
  "downloadVideo local_env (always (Reply 200 (JStream 7))) ''frames_1.zip''
     (request_with (Some ''Bearer t'') (JObj [(''sub'', JStr ''user-id-123'')]))
     fresh_response fresh_world
   = (Inr (),
      \<lparr>res_headers = [''Content-Type'' \<mapsto> ''application/zip'',
                      ''Content-Disposition'' \<mapsto> ''attachment; filename=frames_1.zip''],
       res_piped = Some (JStream 7)\<rparr>,
      fresh_world\<lparr>sent :=
        [\<lparr>meth = GET, url = ''http://localhost:3000/api/v1/videos/download/frames_1.zip'',
          headers = [(''X-User-Id'', ''user-id-123'')],
          payload = NoBody, responseType = ResponseStream\<rparr>]\<rparr>)"
proof -
  let ?http = "always (Reply 200 (JStream 7))"
  let ?kvs = "[(''sub'', JStr ''user-id-123'')]"
  let ?req = "request_with (Some ''Bearer t'') (JObj ?kvs)"
  let ?c = "\<lparr>meth = GET, url = ''http://localhost:3000/api/v1/videos/download/frames_1.zip'',
          headers = [(''X-User-Id'', ''user-id-123'')],
          payload = NoBody, responseType = ResponseStream\<rparr>"
  have a1: "user ?req = JObj ?kvs"
    by (simp add: request_with_def)
  have a2: "(member_of ?kvs ''user''
              \<in> {JUndefined, JNull, JBool False, JNum ''0'', JNum ''NaN'', JStr []}
            \<and> JStr ''user-id-123'' = member_of ?kvs ''sub'')
         \<or> (\<exists>nested. member_of ?kvs ''user'' = JObj nested
               \<and> JStr ''user-id-123'' = member_of nested ''sub'')"
    by (simp add: member_of_def)
  have a3: "JStr ''user-id-123'' = JStr ''user-id-123'' \<or> JStr ''user-id-123'' = JNum ''user-id-123''
         \<or> (JStr ''user-id-123'' = JUndefined \<and> ''user-id-123'' = ''undefined'')
         \<or> (JStr ''user-id-123'' = JNull \<and> ''user-id-123'' = ''null'')
         \<or> (JStr ''user-id-123'' = JBool True \<and> ''user-id-123'' = ''true'')
         \<or> (JStr ''user-id-123'' = JBool False \<and> ''user-id-123'' = ''false'')"
    by simp
  have a4: "\<forall>ch \<in> set ''frames_1.zip''. of_char ch = (9::nat)
           \<or> (32 \<le> (of_char ch :: nat) \<and> (of_char ch :: nat) \<le> 126)
           \<or> 128 \<le> (of_char ch :: nat)"
    by simp
  have a5: "?c = \<lparr>meth = GET,
              url = (case VIDEO_SERVICE_URL local_env of
                       None \<Rightarrow> ''http://localhost:3000''
                     | Some u \<Rightarrow> if u = [] then ''http://localhost:3000'' else u)
                    @ ''/api/v1/videos/download/'' @ ''frames_1.zip'',
              headers = [(''X-User-Id'', ''user-id-123'')],
              payload = NoBody,
              responseType = ResponseStream\<rparr>"
    by (simp add: local_env_def)
  have a6: "?http ?c = Reply 200 (JStream 7)"
    by (simp add: always_def)
  have a7: "(200::nat) \<le> 200" and a8: "(200::nat) < 300"
    by simp_all
  from download_streams[where http = ?http and w = fresh_world and res = fresh_response,
         OF a1 a2 a3 a4 a5 a6 a7 a8]
  show ?thesis
    by (simp add: fresh_response_def fresh_world_def)
qed

text \<open>
  C7 fails as stated: for a name with a line feed the call goes out, \<^verbatim>\<open>Content-Type\<close> is
  set, and setting \<^verbatim>\<open>Content-Disposition\<close> throws; that header is not set and nothing is
  piped. (The error thrown is then answered by the exception layer, with status 500 and
  a content type of its own.)
\<close>

theorem download_line_feed_name_throws:
  "downloadVideo local_env (always (Reply 200 (JStream 7))) (''a'' @ [CHR 0x0A] @ ''b'')
     (request_with (Some ''Bearer t'') (JObj [(''sub'', JStr ''user-id-123'')]))
     fresh_response fresh_world
   = (Inl (TypeError (''Invalid character in header content ['' @ [CHR 0x22]
                        @ ''Content-Disposition'' @ [CHR 0x22] @ '']'')),
      \<lparr>res_headers = [''Content-Type'' \<mapsto> ''application/zip''], res_piped = None\<rparr>,
      fresh_world\<lparr>sent :=
        [\<lparr>meth = GET,
          url = ''http://localhost:3000/api/v1/videos/download/a'' @ [CHR 0x0A] @ ''b'',
          headers = [(''X-User-Id'', ''user-id-123'')],
          payload = NoBody, responseType = ResponseStream\<rparr>]\<rparr>)"
  by (simp add: downloadVideo_def httpService_request_def settle_def always_def userId_def
      member_of_def download_call_def or_default_def local_env_def request_with_def
      fresh_world_def fresh_response_def setHeader_def header_char_ok_def)

section \<open>The auth passthroughs\<close>

lemma auth_call_eq:
  "auth_call e path dto =
     \<lparr>meth = POST,
      url = (case AUTH_SERVICE_URL e of
               None \<Rightarrow> ''http://localhost:3002''
             | Some u \<Rightarrow> if u = [] then ''http://localhost:3002'' else u) @ path,
      headers = [],
      payload = JsonBody dto,
      responseType = ResponseDefault\<rparr>"
  by (simp add: auth_call_def or_default_def)

lemma passthrough_eq:
  "passthrough e http path dto w =
     (case settle (http (auth_call e path dto)) of
        Inr resp \<Rightarrow> Inr (data resp) | Inl err \<Rightarrow> Inl err,
      w\<lparr>sent := sent w @ [auth_call e path dto]\<rparr>)"
  by (simp add: passthrough_def httpService_request_def split: sum.splits)

text \<open>
  C8, as the code has it. When the auth service answers \<^verbatim>\<open>register\<close>, \<^verbatim>\<open>login\<close> or
  \<^verbatim>\<open>refresh\<close> with a status outside [200, 300), the handler neither catches nor wraps nor
  translates the failure: it rejects with the error of the call itself, which carries
  the backend's status and body unchanged. The handler builds no response from that
  error. The error is not an \<^verbatim>\<open>HttpException\<close>, so the built-in exception layer answers
  the client with status 500 and the message \<^verbatim>\<open>Internal server error\<close>, whatever the
  backend's status and body were.
\<close>

theorem passthrough_rethrows:
  assumes "(handler, path) = (register, ''/auth/register'')
         \<or> (handler, path) = (login, ''/auth/login'')
         \<or> (handler, path) = (refresh, ''/auth/refresh'')"
    and "c = \<lparr>meth = POST,
              url = (case AUTH_SERVICE_URL e of
                       None \<Rightarrow> ''http://localhost:3002''
                     | Some u \<Rightarrow> if u = [] then ''http://localhost:3002'' else u) @ path,
              headers = [],
              payload = JsonBody dto,
              responseType = ResponseDefault\<rparr>"
    and "http c = Reply st b" and "st < 200 \<or> 300 \<le> st"
  shows "handler e http dto w = (Inl (AxiosError (BadStatus st b)), w\<lparr>sent := sent w @ [c]\<rparr>)
       \<and> getStatus (AxiosError (BadStatus st b)) = None
       \<and> reply_status (AxiosError (BadStatus st b)) = 500
       \<and> reply_message (AxiosError (BadStatus st b)) = ''Internal server error''"
proof -
  have h: "handler e http dto w = passthrough e http path dto w"
    using assms(1) by (auto simp: register_def login_def refresh_def)
  have c: "auth_call e path dto = c"
    using assms(2) by (simp add: auth_call_eq)
  show ?thesis
    unfolding h passthrough_eq c
    using assms(3) settle_bad[OF assms(4)]
    by (simp add: reply_status_def)
qed

text \<open>The closed instance: \<^verbatim>\<open>register\<close> answered with 409.\<close>

theorem passthrough_rethrows_witness:
  "register local_env (always (Reply 409 (JObj [(''message'', JStr ''Username already exists'')])))
     (JObj [(''username'', JStr ''u'')]) fresh_world
   = (Inl (AxiosError (BadStatus 409 (JObj [(''message'', JStr ''Username already exists'')]))),
      fresh_world\<lparr>sent :=
        [\<lparr>meth = POST, url = ''http://localhost:3002/auth/register'', headers = [],
          payload = JsonBody (JObj [(''username'', JStr ''u'')]),
          responseType = ResponseDefault\<rparr>]\<rparr>)"
proof -
  let ?b = "JObj [(''message'', JStr ''Username already exists'')]"
  let ?http = "always (Reply 409 ?b)"
  let ?dto = "JObj [(''username'', JStr ''u'')]"
  let ?c = "\<lparr>meth = POST, url = ''http://localhost:3002/auth/register'', headers = [],
          payload = JsonBody ?dto, responseType = ResponseDefault\<rparr>"
  have a1: "(register, ''/auth/register'') = (register, ''/auth/register'')
         \<or> (register, ''/auth/register'') = (login, ''/auth/login'')
         \<or> (register, ''/auth/register'') = (refresh, ''/auth/refresh'')"
    by simp
  have a2: "?c = \<lparr>meth = POST,
              url = (case AUTH_SERVICE_URL local_env of
                       None \<Rightarrow> ''http://localhost:3002''
                     | Some u \<Rightarrow> if u = [] then ''http://localhost:3002'' else u)
                    @ ''/auth/register'',
              headers = [],
              payload = JsonBody ?dto,
              responseType = ResponseDefault\<rparr>"
    by (simp add: local_env_def)
  have a3: "?http ?c = Reply 409 ?b"
    by (simp add: always_def)
  have a4: "(409::nat) < 200 \<or> (300::nat) \<le> 409"
    by simp
  from passthrough_rethrows[where http = ?http and w = fresh_world, OF a1 a2 a3 a4]
  show ?thesis
    by (simp add: fresh_world_def)
qed

text \<open>
  C8 fails as stated: a login answered by the auth service with 401 and a body rejects
  with an \<^verbatim>\<open>AxiosError\<close>, and the client is answered with 500, not with the backend's 401.
\<close>

theorem login_error_answered_500:
  "fst (login local_env (always (Reply 401 (JObj [(''message'', JStr ''Invalid credentials'')])))
          (JObj [(''username'', JStr ''u''), (''password'', JStr ''p'')]) fresh_world)
     = Inl (AxiosError (BadStatus 401 (JObj [(''message'', JStr ''Invalid credentials'')])))
   \<and> reply_status (AxiosError (BadStatus 401 (JObj [(''message'', JStr ''Invalid credentials'')])))
     = 500
   \<and> reply_status (AxiosError (BadStatus 401 (JObj [(''message'', JStr ''Invalid credentials'')])))
     \<noteq> 401"
  by (simp add: login_def passthrough_eq settle_def always_def reply_status_def)

text \<open>
  C9, as the code has it. \<^verbatim>\<open>login\<close> sends one \<^verbatim>\<open>POST\<close> to
  \<^verbatim>\<open><AUTH_SERVICE_URL>/auth/login\<close> and, when the answer has a status in [200, 300),
  returns the answer's body as it is. The handler records no auth operation: whatever
  the auth service answers, every label of the counter of auth operations has the same
  value after the handler as before it. The counter labelled (operation, status) grows
  by exactly one, and no other label of it changes, when
  \<^verbatim>\<open>recordAuthOperation(operation, status)\<close> is called.
\<close>

theorem login_records_no_auth_operation:
  assumes "c = \<lparr>meth = POST,
              url = (case AUTH_SERVICE_URL e of
                       None \<Rightarrow> ''http://localhost:3002''
                     | Some u \<Rightarrow> if u = [] then ''http://localhost:3002'' else u)
                    @ ''/auth/login'',
              headers = [],
              payload = JsonBody loginDto,
              responseType = ResponseDefault\<rparr>"
  shows "sent (snd (login e http loginDto w)) = sent w @ [c]
       \<and> (\<forall>st b. http c = Reply st b \<and> 200 \<le> st \<and> st < 300
             \<longrightarrow> fst (login e http loginDto w) = Inr b)
       \<and> (\<forall>l. authOperations (metrics (snd (login e http loginDto w))) l
                = authOperations (metrics w) l)
       \<and> authOperations (metrics (recordAuthOperation operation s w)) (operation, s)
           = authOperations (metrics w) (operation, s) + 1
       \<and> (\<forall>l. l \<noteq> (operation, s)
             \<longrightarrow> authOperations (metrics (recordAuthOperation operation s w)) l
                 = authOperations (metrics w) l)"
proof -
  have c: "auth_call e ''/auth/login'' loginDto = c"
    using assms by (simp add: auth_call_eq)
  have "snd (login e http loginDto w) = w\<lparr>sent := sent w @ [c]\<rparr>"
    by (simp add: login_def passthrough_eq c)
  then have "sent (snd (login e http loginDto w)) = sent w @ [c]"
    and "\<forall>l. authOperations (metrics (snd (login e http loginDto w))) l
                = authOperations (metrics w) l"
    by simp_all
  moreover have "\<forall>st b. http c = Reply st b \<and> 200 \<le> st \<and> st < 300
             \<longrightarrow> fst (login e http loginDto w) = Inr b"
    by (simp add: login_def passthrough_eq c settle_ok)
  moreover have "authOperations (metrics (recordAuthOperation operation s w)) (operation, s)
           = authOperations (metrics w) (operation, s) + 1"
    by (simp add: recordAuthOperation_def inc_def)
  moreover have "\<forall>l. l \<noteq> (operation, s)
             \<longrightarrow> authOperations (metrics (recordAuthOperation operation s w)) l
                 = authOperations (metrics w) l"
    by (simp add: recordAuthOperation_def inc_def)
  ultimately show ?thesis by simp
qed

text \<open>The closed instance: the login of the scenario, answered with 200.\<close>

theorem login_records_no_auth_operation_witness:
  "login local_env (always (Reply 200 (JObj [(''access_token'', JStr ''t1''),
                                              (''refresh_token'', JStr ''t2'')])))
     (JObj [(''username'', JStr ''u''), (''password'', JStr ''p'')]) fresh_world
   = (Inr (JObj [(''access_token'', JStr ''t1''), (''refresh_token'', JStr ''t2'')]),
      fresh_world\<lparr>sent :=
        [\<lparr>meth = POST, url = ''http://localhost:3002/auth/login'', headers = [],
          payload = JsonBody (JObj [(''username'', JStr ''u''), (''password'', JStr ''p'')]),
          responseType = ResponseDefault\<rparr>]\<rparr>)
   \<and> authOperations (metrics (recordAuthOperation ''login'' ''success'' fresh_world))
        (''login'', ''success'') = 1"
proof -
  let ?b = "JObj [(''access_token'', JStr ''t1''), (''refresh_token'', JStr ''t2'')]"
  let ?http = "always (Reply 200 ?b)"
  let ?dto = "JObj [(''username'', JStr ''u''), (''password'', JStr ''p'')]"
  let ?c = "\<lparr>meth = POST, url = ''http://localhost:3002/auth/login'', headers = [],
          payload = JsonBody ?dto, responseType = ResponseDefault\<rparr>"
  have a: "?c = \<lparr>meth = POST,
              url = (case AUTH_SERVICE_URL local_env of
                       None \<Rightarrow> ''http://localhost:3002''
                     | Some u \<Rightarrow> if u = [] then ''http://localhost:3002'' else u)
                    @ ''/auth/login'',
              headers = [],
              payload = JsonBody ?dto,
              responseType = ResponseDefault\<rparr>"
    by (simp add: local_env_def)
  note t = login_records_no_auth_operation[where http = ?http and w = fresh_world
             and operation = "''login''" and s = "''success''", OF a]
  have "sent (snd (login local_env ?http ?dto fresh_world)) = sent fresh_world @ [?c]"
    and "fst (login local_env ?http ?dto fresh_world) = Inr ?b"
    and "\<forall>l. authOperations (metrics (snd (login local_env ?http ?dto fresh_world))) l
               = authOperations (metrics fresh_world) l"
    and "authOperations (metrics (recordAuthOperation ''login'' ''success'' fresh_world))
           (''login'', ''success'')
         = authOperations (metrics fresh_world) (''login'', ''success'') + 1"
    using t by (simp_all add: always_def)
  moreover have "snd (login local_env ?http ?dto fresh_world)
                   = fresh_world\<lparr>sent := sent (snd (login local_env ?http ?dto fresh_world))\<rparr>"
    by (simp add: login_def passthrough_eq)
  ultimately show ?thesis
    by (simp add: prod_eq_iff fresh_world_def)
qed

text \<open>
  C9 fails as stated: after a login answered with 200 the counter labelled
  (\<^verbatim>\<open>login\<close>, \<^verbatim>\<open>success\<close>) is what it was, not one more; after a login answered with 401
  so is the counter labelled (\<^verbatim>\<open>login\<close>, \<^verbatim>\<open>failure\<close>); and a normal return of the route
  is answered with status 201, not 200.
\<close>

theorem login_answered_201_counter_unchanged:
  "authOperations (metrics (snd (login local_env
       (always (Reply 200 (JObj [(''access_token'', JStr ''t1''), (''refresh_token'', JStr ''t2'')])))
       (JObj [(''username'', JStr ''u''), (''password'', JStr ''p'')]) fresh_world)))
     (''login'', ''success'')
   \<noteq> authOperations (metrics fresh_world) (''login'', ''success'') + 1
   \<and> authOperations (metrics (snd (login local_env
       (always (Reply 401 (JObj [(''message'', JStr ''Invalid credentials'')])))
       (JObj [(''username'', JStr ''u''), (''password'', JStr ''p'')]) fresh_world)))
     (''login'', ''failure'')
   \<noteq> authOperations (metrics fresh_world) (''login'', ''failure'') + 1
   \<and> return_status login_route = 201
   \<and> return_status login_route \<noteq> 200"
  by (simp add: login_def passthrough_eq fresh_world_def return_status_def login_route_def)

end
